theory Spec2Isabelle
  imports Main "HOL-Library.Word"
begin

unbundle bit_operations_syntax

section \<open>Package apperror: data model\<close>

text \<open>
  A Go call either returns or panics. The panics that the modelled code can raise are
  listed; every other outcome is a returned value.
\<close>

datatype panic =
    NilDereference      \<comment> \<open>method call or field read through a nil interface or nil pointer\<close>
  | NilMapWrite         \<comment> \<open>assignment to an entry of a nil map\<close>
  | MustParseFailed     \<comment> \<open>\<open>uuid.MustParse\<close> on text that does not parse\<close>
  | RandomSourceFailed  \<comment> \<open>\<open>uuid.New\<close> when the random source delivers no 16 bytes\<close>

datatype 'a outcome = Return 'a | Panic panic

text \<open>
  \<open>type Category int\<close> with the constants numbered by \<open>iota\<close>. Every Go \<open>int\<close> is a
  value of the type; no arithmetic is done on categories, status codes or internal codes,
  so they are unbounded integers here.
\<close>

type_synonym Category = int

definition ErrValidation :: Category where "ErrValidation = 0"
definition ErrInternal :: Category where "ErrInternal = 1"
definition ErrNotFound :: Category where "ErrNotFound = 2"
definition ErrMethoNotAllowed :: Category where "ErrMethoNotAllowed = 3"
definition ErrSecurity :: Category where "ErrSecurity = 4"
definition ErrForbidden :: Category where "ErrForbidden = 5"
definition ErrUnauthorized :: Category where "ErrUnauthorized = 6"

record Code =
  Category :: Category
  Internal :: int

text \<open>
  A Go map is a reference: \<open>nil\<close>, or the address of a table living in the store.
  Copying a struct copies the reference, not the table.
\<close>

type_synonym addr = nat

record heap =
  cells :: "addr \<Rightarrow> (string \<rightharpoonup> string)"
  fresh :: addr

text \<open>
  Values of the interface type \<open>error\<close>: the nil interface, the standard library's
  \<open>errors.New\<close> value, its \<open>fmt.Errorf\<close> wrapper (\<open>%w\<close>: a message and the wrapped
  error), and the two types of this package that carry the method \<open>Error\<close>. Since
  \<open>Error\<close> and \<open>Unwrap\<close> have value receivers, both \<open>AppError\<close> and \<open>*AppError\<close>
  implement the interface; a \<open>*AppError\<close> may be a nil pointer. No function of the
  package writes through a \<open>*AppError\<close>, so a non-nil pointer is modelled by the struct it
  points to. The struct's fields are the selectors of \<open>AppError\<close>.

  \<open>MultiError\<close> is a value with the method \<open>Unwrap() []error\<close>, as \<open>errors.Join\<close> and
  \<open>fmt.Errorf\<close> with several \<open>%w\<close> make it: its text and the errors it wraps.
  \<open>CustomError\<close> is a value of any error type declared outside the package, given by
  what the package can observe of it: its text; what its method \<open>As\<close> does with a target
  of type \<open>**AppError\<close> (\<open>None\<close>: the type has no such method, or the method declines;
  \<open>Some p\<close>: it stores the pointer \<open>p\<close> in the target and accepts); and the errors its
  \<open>Unwrap\<close> gives (none without the method, one for \<open>Unwrap() error\<close>, several for
  \<open>Unwrap() []error\<close>). Methods of such types are taken to return and to change nothing
  but the target.
\<close>

datatype error =
    NilError
  | ErrorString string
  | WrapError string error
  | MultiError string "error list"
  | CustomError string "AppError option option" "error list"
  | AppErrorPtr "AppError option"
  | AppErrorVal AppError
and AppError =
    AppError (Err: error) (Status: int) (Code: Code) (Message: string)
      (Metadata: "addr option")

section \<open>Package apperror: operations\<close>

text \<open>\<open>make(map[string]string)\<close>: a fresh, empty table.\<close>

definition make_map :: "heap \<Rightarrow> heap \<times> addr" where
  "make_map h =
     (h\<lparr>cells := (cells h)(fresh h := Map.empty), fresh := Suc (fresh h)\<rparr>, fresh h)"

text \<open>\<open>m[k] = v\<close> for a map reference \<open>m\<close>.\<close>

definition map_assign :: "heap \<Rightarrow> addr option \<Rightarrow> string \<Rightarrow> string \<Rightarrow> heap outcome" where
  "map_assign h m k v =
     (case m of
        None \<Rightarrow> Panic NilMapWrite
      | Some a \<Rightarrow> Return (h\<lparr>cells := (cells h)(a := (cells h a)(k \<mapsto> v))\<rparr>))"

text \<open>\<open>m[k]\<close> read through a map reference; reading a nil map finds nothing.\<close>

definition map_lookup :: "heap \<Rightarrow> addr option \<Rightarrow> string \<Rightarrow> string option" where
  "map_lookup h m k = (case m of None \<Rightarrow> None | Some a \<Rightarrow> cells h a k)"

text \<open>\<open>NewAppError(err, category, internalCode)\<close>; \<open>internalCode\<close> is a \<open>*int\<close>.\<close>

definition NewAppError :: "heap \<Rightarrow> error \<Rightarrow> Category \<Rightarrow> int option \<Rightarrow> heap \<times> AppError" where
  "NewAppError h err category internalCode =
     (case internalCode of
        Some n \<Rightarrow>
          (let (h', m) = make_map h
           in (h', AppError err 0 \<lparr>Category = category, Internal = n\<rparr> [] (Some m)))
      | None \<Rightarrow>
          (let (h', m) = make_map h
           in (h', AppError err 0 \<lparr>Category = category, Internal = 0\<rparr> [] (Some m))))"

text \<open>
  The method \<open>Error\<close> called on an interface value. \<open>AppError.Error\<close> is
  \<open>err.Err.Error()\<close>; called through a nil interface or a nil pointer it panics.
\<close>

fun error_Error :: "error \<Rightarrow> string outcome"
  and AppError_Error :: "AppError \<Rightarrow> string outcome" where
  "error_Error NilError = Panic NilDereference"
| "error_Error (ErrorString s) = Return s"
| "error_Error (WrapError msg e) = Return msg"
| "error_Error (MultiError msg es) = Return msg"
| "error_Error (CustomError msg as es) = Return msg"
| "error_Error (AppErrorPtr None) = Panic NilDereference"
| "error_Error (AppErrorPtr (Some a)) = AppError_Error a"
| "error_Error (AppErrorVal a) = AppError_Error a"
| "AppError_Error (AppError err st c msg md) = error_Error err"

text \<open>\<open>AppError.Unwrap\<close>.\<close>

definition Unwrap :: "AppError \<Rightarrow> error" where
  "Unwrap err = Err err"

text \<open>
  \<open>withStatus(internalCode, err)\<close>: the composite literal names \<open>Err\<close>, \<open>Code.Internal\<close>
  and \<open>Message\<close>; the other fields keep their zero values.
\<close>

definition withStatus :: "int \<Rightarrow> error \<Rightarrow> AppError outcome" where
  "withStatus internalCode err =
     (case error_Error err of
        Panic p \<Rightarrow> Panic p
      | Return msg \<Rightarrow>
          Return (AppError err 0 \<lparr>Category = 0, Internal = internalCode\<rparr> msg None))"

definition StatusBadRequest :: int where "StatusBadRequest = 400"
definition StatusUnauthorized :: int where "StatusUnauthorized = 401"
definition StatusForbidden :: int where "StatusForbidden = 403"
definition StatusNotFound :: int where "StatusNotFound = 404"
definition StatusInternalServerError :: int where "StatusInternalServerError = 500"

definition BadRequest :: "error \<Rightarrow> AppError outcome" where
  "BadRequest err = withStatus StatusBadRequest err"

definition NotFound :: "error \<Rightarrow> AppError outcome" where
  "NotFound err = withStatus StatusNotFound err"

definition Unauthorized :: "error \<Rightarrow> AppError outcome" where
  "Unauthorized err = withStatus StatusUnauthorized err"

definition Forbidden :: "error \<Rightarrow> AppError outcome" where
  "Forbidden err = withStatus StatusForbidden err"

definition InternalServerError :: "error \<Rightarrow> AppError outcome" where
  "InternalServerError err = withStatus StatusInternalServerError err"

text \<open>\<open>strconv.Itoa\<close>: the decimal text of an integer.\<close>

function decimal :: "nat \<Rightarrow> string" where
  "decimal n =
     (if n < 10 then [''0123456789'' ! n]
      else decimal (n div 10) @ [''0123456789'' ! (n mod 10)])"
  by pat_completeness auto
termination
  by (relation "measure (\<lambda>n. n)") auto

definition Itoa :: "int \<Rightarrow> string" where
  "Itoa i = (if i < 0 then CHR ''-'' # decimal (nat (- i)) else decimal (nat i))"

text \<open>
  The builder methods have a value receiver: \<open>err\<close> is a copy of the struct, the map
  behind \<open>err.Metadata\<close> is not copied. The result is a pointer to the copy.
\<close>

definition WithField :: "heap \<Rightarrow> AppError \<Rightarrow> string \<Rightarrow> (heap \<times> AppError) outcome" where
  "WithField h err v =
     (case map_assign h (Metadata err) ''field'' v of
        Panic p \<Rightarrow> Panic p
      | Return h' \<Rightarrow> Return (h', err))"

definition WithRow :: "heap \<Rightarrow> AppError \<Rightarrow> int \<Rightarrow> (heap \<times> AppError) outcome" where
  "WithRow h err row =
     (case map_assign h (Metadata err) ''row'' (Itoa row) of
        Panic p \<Rightarrow> Panic p
      | Return h' \<Rightarrow> Return (h', err))"

definition WithInfo :: "heap \<Rightarrow> AppError \<Rightarrow> string \<Rightarrow> (heap \<times> AppError) outcome" where
  "WithInfo h err info =
     (case map_assign h (Metadata err) ''info'' info of
        Panic p \<Rightarrow> Panic p
      | Return h' \<Rightarrow> Return (h', err))"

text \<open>
  \<open>errors.As(srcErr, &appErr)\<close> with \<open>appErr\<close> of type \<open>*AppError\<close>: the loop of the
  standard library, branch by branch. A nil error gives false. A value is assignable to
  the target exactly when its dynamic type is \<open>*AppError\<close>: then it is stored. Otherwise
  the value's own method \<open>As\<close>, if it has one, is asked. Otherwise the loop goes on with
  what \<open>Unwrap() error\<close> gives (false if that is nil), or tries in order the elements
  that \<open>Unwrap() []error\<close> gives (skipping nil ones) until one succeeds, and gives false
  for a value with neither method. The result is the pointer left in \<open>appErr\<close>, or
  \<open>None\<close> when \<open>errors.As\<close> reports false.
\<close>

fun errors_As :: "error \<Rightarrow> AppError option option"
  and errors_As_each :: "error list \<Rightarrow> AppError option option" where
  "errors_As NilError = None"
| "errors_As (ErrorString s) = None"
| "errors_As (WrapError msg e) = errors_As e"
| "errors_As (MultiError msg es) = errors_As_each es"
| "errors_As (CustomError msg as es) =
     (case as of Some p \<Rightarrow> Some p | None \<Rightarrow> errors_As_each es)"
| "errors_As (AppErrorPtr p) = Some p"
| "errors_As (AppErrorVal (AppError err st c msg md)) = errors_As err"
| "errors_As_each [] = None"
| "errors_As_each (e # es) =
     (case errors_As e of Some p \<Rightarrow> Some p | None \<Rightarrow> errors_As_each es)"

text \<open>
  \<open>IsCategory(srcErr, category)\<close>. The store of metadata maps is passed through: the
  function makes no assignment to a map, a field or anything else but its local
  \<open>appErr\<close>, so the store it returns is the store it was given.
\<close>

definition IsCategory :: "heap \<Rightarrow> error \<Rightarrow> Category \<Rightarrow> (heap \<times> bool) outcome" where
  "IsCategory h srcErr category =
     (case errors_As srcErr of
        Some appErr \<Rightarrow>
          (case appErr of
             None \<Rightarrow> Panic NilDereference
           | Some a \<Rightarrow> Return (h, Category (Code a) = category))
      | None \<Rightarrow> Return (h, False))"

text \<open>\<open>Category.String\<close>: the \<open>switch\<close>, case by case in the source's order.\<close>

definition Category_String :: "Category \<Rightarrow> string" where
  "Category_String c =
     (if c = ErrValidation then ''ValidationError''
      else if c = ErrInternal then ''InternalError''
      else if c = ErrNotFound then ''NotFouncError''
      else if c = ErrMethoNotAllowed then ''MethoNotAllowedError''
      else if c = ErrForbidden then ''ForbiddenError''
      else if c = ErrUnauthorized then ''UnauthorizedError''
      else ''UnkownCategoryError'')"

section \<open>Packages id and pkg/id\<close>

text \<open>
  Modelled from the spec: the UUID library (\<open>github.com/google/uuid\<close>) is not part of
  the repository. Its value type is an array of 16 bytes, \<open>String\<close> gives the canonical
  text form (8-4-4-4-12 groups of lower-case hexadecimal digits), \<open>Parse\<close> reads it back,
  and \<open>New\<close> gives a random version-4 identifier. The definitions follow the library:
  \<open>Parse\<close> selects by the length of the text (36: canonical; 45: canonical after the
  prefix \<open>urn:uuid:\<close> in any letter case; 38: canonical after one enclosing byte; 32:
  hexadecimal digits only), \<open>MustParse\<close> panics where \<open>Parse\<close> fails, and \<open>New\<close> reads
  16 bytes from the random source and stamps version and variant.
\<close>

type_synonym byte = "8 word"

type_synonym UUID = "byte list"

definition uuid_Nil :: UUID where
  "uuid_Nil = replicate 16 0"

definition hextable :: string where
  "hextable = ''0123456789abcdef''"

definition hex_Encode :: "byte list \<Rightarrow> string" where
  "hex_Encode src =
     concat (map (\<lambda>v. [hextable ! unat (drop_bit 4 v), hextable ! unat (v AND 0x0f)]) src)"

definition uuid_String :: "UUID \<Rightarrow> string" where
  "uuid_String uuid =
     hex_Encode (take 4 uuid) @ CHR ''-'' #
     hex_Encode (take 2 (drop 4 uuid)) @ CHR ''-'' #
     hex_Encode (take 2 (drop 6 uuid)) @ CHR ''-'' #
     hex_Encode (take 2 (drop 8 uuid)) @ CHR ''-'' #
     hex_Encode (drop 10 uuid)"

text \<open>The value of a hexadecimal digit; 255 marks every other byte.\<close>

definition xvalues :: "char \<Rightarrow> byte" where
  "xvalues c =
     (let n = (of_char c :: nat)
      in if 48 \<le> n \<and> n \<le> 57 then of_nat (n - 48)
         else if 65 \<le> n \<and> n \<le> 70 then of_nat (n - 55)
         else if 97 \<le> n \<and> n \<le> 102 then of_nat (n - 87)
         else 255)"

definition xtob :: "char \<Rightarrow> char \<Rightarrow> byte option" where
  "xtob x1 x2 =
     (let b1 = xvalues x1; b2 = xvalues x2
      in if b1 = 255 \<or> b2 = 255 then None else Some (push_bit 4 b1 OR b2))"

definition parse_dashed :: "string \<Rightarrow> UUID option" where
  "parse_dashed s =
     (if s ! 8 = CHR ''-'' \<and> s ! 13 = CHR ''-'' \<and> s ! 18 = CHR ''-'' \<and> s ! 23 = CHR ''-''
      then those (map (\<lambda>x. xtob (s ! x) (s ! (x + 1)))
             [0, 2, 4, 6, 9, 11, 14, 16, 19, 21, 24, 26, 28, 30, 32, 34])
      else None)"

definition ascii_lower :: "char \<Rightarrow> char" where
  "ascii_lower c =
     (let n = (of_char c :: nat) in if 65 \<le> n \<and> n \<le> 90 then char_of (n + 32) else c)"

definition uuid_Parse :: "string \<Rightarrow> UUID option" where
  "uuid_Parse s =
     (if length s = 36 then parse_dashed s
      else if length s = 36 + 9 then
        (if map ascii_lower (take 9 s) = ''urn:uuid:'' then parse_dashed (drop 9 s) else None)
      else if length s = 36 + 2 then parse_dashed (drop 1 s)
      else if length s = 32 then
        those (map (\<lambda>i. xtob (s ! (i * 2)) (s ! (i * 2 + 1))) [0..<16])
      else None)"

definition uuid_MustParse :: "string \<Rightarrow> UUID outcome" where
  "uuid_MustParse s =
     (case uuid_Parse s of None \<Rightarrow> Panic MustParseFailed | Some u \<Rightarrow> Return u)"

text \<open>\<open>rnd\<close> is what the random source delivers; \<open>New\<close> needs its first 16 bytes.\<close>

definition uuid_New :: "byte list \<Rightarrow> UUID outcome" where
  "uuid_New rnd =
     (if length rnd < 16 then Panic RandomSourceFailed
      else let uuid = take 16 rnd;
               uuid = uuid[6 := (uuid ! 6 AND 0x0f) OR 0x40];
               uuid = uuid[8 := (uuid ! 8 AND 0x3f) OR 0x80]
           in Return uuid)"

text \<open>
  \<open>type Id uuid.UUID\<close>. The functions work on \<open>*Id\<close>: a pointer is \<open>None\<close> when nil and
  otherwise the value it points to, since nothing writes through it.
\<close>

type_synonym Id = UUID

text \<open>Package \<open>id\<close> (\<open>src/id/id.go\<close>).\<close>

definition NewId :: "byte list \<Rightarrow> Id option outcome" where
  "NewId rnd = (case uuid_New rnd of Panic p \<Rightarrow> Panic p | Return u \<Rightarrow> Return (Some u))"

definition ToString :: "Id option \<Rightarrow> string outcome" where
  "ToString idp = (case idp of None \<Rightarrow> Panic NilDereference | Some u \<Rightarrow> Return (uuid_String u))"

definition ToUUID :: "Id option \<Rightarrow> UUID outcome" where
  "ToUUID idp = (case idp of None \<Rightarrow> Panic NilDereference | Some u \<Rightarrow> Return u)"

definition FromString :: "string \<Rightarrow> (Id option \<times> error) outcome" where
  "FromString s =
     (if s = [] \<or> s = uuid_String uuid_Nil
      then Return (None, ErrorString ''string s cannot be empty'')
      else case uuid_MustParse s of
             Panic p \<Rightarrow> Panic p
           | Return u \<Rightarrow> Return (Some u, NilError))"

text \<open>
  Package \<open>pkg/id\<close> (\<open>src/pkg/id/id.go\<close>): \<open>NewId\<close> is \<open>&Id{}\<close>, \<open>FromString\<close> tests
  for the empty text only, \<open>ToString\<close> and \<open>ToUUID\<close> are as in package \<open>id\<close>.
\<close>

definition pkg_NewId :: "Id option" where
  "pkg_NewId = Some (replicate 16 0)"

definition pkg_ToString :: "Id option \<Rightarrow> string outcome" where
  "pkg_ToString idp =
     (case idp of None \<Rightarrow> Panic NilDereference | Some u \<Rightarrow> Return (uuid_String u))"

definition pkg_ToUUID :: "Id option \<Rightarrow> UUID outcome" where
  "pkg_ToUUID idp = (case idp of None \<Rightarrow> Panic NilDereference | Some u \<Rightarrow> Return u)"

definition pkg_FromString :: "string \<Rightarrow> (Id option \<times> error) outcome" where
  "pkg_FromString s =
     (if s = []
      then Return (None, ErrorString ''string s cannot be empty'')
      else case uuid_MustParse s of
             Panic p \<Rightarrow> Panic p
           | Return u \<Rightarrow> Return (Some u, NilError))"

section \<open>Reference notions for the classification query\<close>

text \<open>
  The unwrap chain of an error value: the value itself, then what its \<open>Unwrap\<close> method
  returns, and so on while the value has the method and the result is not nil. Where
  \<open>Unwrap\<close> returns several errors the chain is a tree, listed depth first: each
  wrapped error with all that it wraps, before the next one. A nil \<open>*AppError\<close> ends
  its branch.
\<close>

fun unwrap_chain :: "error \<Rightarrow> error list"
  and unwrap_chain_each :: "error list \<Rightarrow> error list" where
  "unwrap_chain NilError = []"
| "unwrap_chain (ErrorString s) = [ErrorString s]"
| "unwrap_chain (WrapError msg e) = WrapError msg e # unwrap_chain e"
| "unwrap_chain (MultiError msg es) = MultiError msg es # unwrap_chain_each es"
| "unwrap_chain (CustomError msg as es) = CustomError msg as es # unwrap_chain_each es"
| "unwrap_chain (AppErrorPtr None) = [AppErrorPtr None]"
| "unwrap_chain (AppErrorPtr (Some (AppError err st c msg md))) =
     AppErrorPtr (Some (AppError err st c msg md)) # unwrap_chain err"
| "unwrap_chain (AppErrorVal (AppError err st c msg md)) =
     AppErrorVal (AppError err st c msg md) # unwrap_chain err"
| "unwrap_chain_each [] = []"
| "unwrap_chain_each (e # es) = unwrap_chain e @ unwrap_chain_each es"

text \<open>
  The pointer that a value by itself supplies for a target of type \<open>*AppError\<close>: the
  value when its dynamic type is \<open>*AppError\<close>, or what its own method \<open>As\<close> stores.
\<close>

fun supplied_pointer :: "error \<Rightarrow> AppError option option" where
  "supplied_pointer (AppErrorPtr p) = Some p"
| "supplied_pointer (CustomError msg as es) = as"
| "supplied_pointer e = None"

text \<open>The first value of a list that supplies a pointer, and the pointer it supplies.\<close>

definition first_supplied :: "error list \<Rightarrow> AppError option option" where
  "first_supplied es =
     (case List.find (\<lambda>e. supplied_pointer e \<noteq> None) es of
        None \<Rightarrow> None
      | Some e \<Rightarrow> supplied_pointer e)"

text \<open>The \<open>AppError\<close> struct that an error value holds, by value or behind a pointer.\<close>

fun held_AppError :: "error \<Rightarrow> AppError option" where
  "held_AppError (AppErrorPtr p) = p"
| "held_AppError (AppErrorVal a) = Some a"
| "held_AppError e = None"

text \<open>
  The query as the specification words it: the first value of the chain that is an
  \<open>AppError\<close> decides, and without one the answer is false.
\<close>

definition spec_isCategory :: "error \<Rightarrow> Category \<Rightarrow> bool" where
  "spec_isCategory err category =
     (case List.find (\<lambda>e. held_AppError e \<noteq> None) (unwrap_chain err) of
        None \<Rightarrow> False
      | Some e \<Rightarrow> map_option (\<lambda>a. Category (Code a)) (held_AppError e) = Some category)"

text \<open>A store in which nothing has been allocated yet.\<close>

definition empty_heap :: heap where
  "empty_heap = \<lparr>cells = (\<lambda>a. Map.empty), fresh = 0\<rparr>"

section \<open>Auxiliary facts\<close>

lemma first_supplied_Nil: "first_supplied [] = None"
  by (simp add: first_supplied_def)

lemma first_supplied_Cons:
  "first_supplied (e # es) =
     (case supplied_pointer e of Some p \<Rightarrow> Some p | None \<Rightarrow> first_supplied es)"
  by (simp add: first_supplied_def split: option.splits)

lemma first_supplied_append:
  "first_supplied (xs @ ys) =
     (case first_supplied xs of Some p \<Rightarrow> Some p | None \<Rightarrow> first_supplied ys)"
  by (induction xs) (simp_all add: first_supplied_Nil first_supplied_Cons split: option.splits)

lemma errors_As_first_supplied:
  "errors_As err = first_supplied (unwrap_chain err)"
  "errors_As_each es = first_supplied (unwrap_chain_each es)"
proof (induction err and es rule: errors_As_errors_As_each.induct)
  case (6 p)
  show ?case
  proof (cases p)
    case None
    then show ?thesis by (simp add: first_supplied_Nil first_supplied_Cons)
  next
    case (Some a)
    then show ?thesis by (cases a) (simp add: first_supplied_Cons)
  qed
qed (simp_all add: first_supplied_Nil first_supplied_Cons first_supplied_append
      split: option.splits)

lemma withStatus_Return:
  "withStatus n err = Return e \<Longrightarrow>
     \<exists>msg. error_Error err = Return msg \<and>
       e = AppError err 0 \<lparr>Category = 0, Internal = n\<rparr> msg None"
  by (auto simp: withStatus_def split: outcome.splits)

lemma hex_digit_value: "n < 16 \<Longrightarrow> xvalues (hextable ! n) = of_nat n"
proof -
  assume "n < 16"
  then have "n \<in> set [0..<16]" by simp
  then have "n \<in> {0, 1, 2, 3, 4, 5, 6, 7, 8, 9, 10, 11, 12, 13, 14, 15}"
    by (simp add: upt_rec eval_nat_numeral)
  then show ?thesis
    by (auto simp: xvalues_def hextable_def)
qed

lemma low_nibble: "(b :: byte) AND 0x0f = take_bit 4 b"
  using take_bit_eq_mask [of 4 b] by (simp add: mask_eq_exp_minus_1)

lemma high_nibble_less: "unat (drop_bit 4 (b :: byte)) < 16"
proof -
  have "unat b < 256" using unsigned_less [of b] by simp
  moreover have "unat (drop_bit 4 b) = unat b div 16"
    by (simp add: drop_bit_eq_div unat_div)
  ultimately show ?thesis by simp
qed

lemma low_nibble_less: "unat ((b :: byte) AND 0x0f) < 16"
proof -
  have "unat (b AND 0x0f) = unat b mod 16"
    by (simp add: low_nibble take_bit_eq_mod unat_mod)
  then show ?thesis by simp
qed

lemma nibbles_recombine: "push_bit 4 (drop_bit 4 (b :: byte)) OR (b AND 0x0f) = b"
  by (auto simp: low_nibble bit_eq_iff bit_simps)

lemma high_nibble_valid: "drop_bit 4 (b :: byte) \<noteq> 255"
  using high_nibble_less [of b] by auto

lemma low_nibble_valid: "(b :: byte) AND 0x0f \<noteq> 255"
  using low_nibble_less [of b] by auto

lemma xtob_hex:
  "xtob (hextable ! unat (drop_bit 4 b)) (hextable ! unat (b AND 0x0f)) = Some b"
  using nibbles_recombine [of b] high_nibble_valid [of b] low_nibble_valid [of b]
  by (simp add: xtob_def Let_def hex_digit_value high_nibble_less low_nibble_less)

lemma sixteen_elements:
  assumes "length (u :: 'a list) = 16"
  obtains b0 b1 b2 b3 b4 b5 b6 b7 b8 b9 b10 b11 b12 b13 b14 b15
  where "u = [b0, b1, b2, b3, b4, b5, b6, b7, b8, b9, b10, b11, b12, b13, b14, b15]"
  using assms by (auto simp: eval_nat_numeral length_Suc_conv)

lemma length_uuid_String: "length u = 16 \<Longrightarrow> length (uuid_String u) = 36"
  by (erule sixteen_elements) (simp add: uuid_String_def hex_Encode_def)

lemma uuid_Parse_String:
  assumes "length u = 16"
  shows "uuid_Parse (uuid_String u) = Some u"
proof -
  obtain b0 b1 b2 b3 b4 b5 b6 b7 b8 b9 b10 b11 b12 b13 b14 b15
    where u: "u = [b0, b1, b2, b3, b4, b5, b6, b7, b8, b9, b10, b11, b12, b13, b14, b15]"
    using assms by (rule sixteen_elements)
  show ?thesis
    unfolding u
    by (simp add: uuid_Parse_def uuid_String_def hex_Encode_def parse_dashed_def xtob_hex)
qed

lemma uuid_String_Nil: "uuid_String uuid_Nil = ''00000000-0000-0000-0000-000000000000''"
  by (simp add: uuid_String_def uuid_Nil_def hex_Encode_def hextable_def eval_nat_numeral)

lemma uuid_String_inject:
  assumes "length u = 16" and "length v = 16" and "uuid_String u = uuid_String v"
  shows "u = v"
proof -
  have "Some u = uuid_Parse (uuid_String u)" using assms(1) by (simp add: uuid_Parse_String)
  also have "\<dots> = uuid_Parse (uuid_String v)" using assms(3) by simp
  also have "\<dots> = Some v" using assms(2) by (simp add: uuid_Parse_String)
  finally show ?thesis by simp
qed

lemma version_byte_nonzero: "((b :: byte) AND 0x0f) OR 0x40 \<noteq> 0"
  by (simp add: or_eq_0_iff)

lemma uuid_New_Return:
  assumes "uuid_New rnd = Return u"
  shows "length u = 16 \<and> u \<noteq> uuid_Nil"
proof -
  from assms have len: "16 \<le> length rnd"
    by (simp add: uuid_New_def split: if_splits)
  from assms len have u: "u = (take 16 rnd)[6 := (take 16 rnd ! 6 AND 0x0f) OR 0x40,
      8 := ((take 16 rnd)[6 := (take 16 rnd ! 6 AND 0x0f) OR 0x40] ! 8 AND 0x3f) OR 0x80]"
    by (simp add: uuid_New_def Let_def)
  from len have l16: "length u = 16" unfolding u by simp
  from len have "u ! 6 = (take 16 rnd ! 6 AND 0x0f) OR 0x40" unfolding u by simp
  then have "u ! 6 \<noteq> 0" by (simp add: version_byte_nonzero)
  moreover have "uuid_Nil ! 6 = 0" by (simp add: uuid_Nil_def)
  ultimately have "u \<noteq> uuid_Nil" by auto
  with l16 show ?thesis by simp
qed

lemma FromString_String:
  assumes "length u = 16" and "u \<noteq> uuid_Nil"
  shows "FromString (uuid_String u) = Return (Some u, NilError)"
proof -
  have "uuid_String u \<noteq> []"
    using length_uuid_String [OF assms(1)] by auto
  moreover have "uuid_String u \<noteq> uuid_String uuid_Nil"
    using uuid_String_inject [OF assms(1), of uuid_Nil] assms(2) by (auto simp: uuid_Nil_def)
  ultimately show ?thesis
    by (simp add: FromString_def uuid_MustParse_def uuid_Parse_String [OF assms(1)])
qed

lemma pkg_FromString_String:
  assumes "length u = 16"
  shows "pkg_FromString (uuid_String u) = Return (Some u, NilError)"
proof -
  have "uuid_String u \<noteq> []"
    using length_uuid_String [OF assms] by auto
  then show ?thesis
    by (simp add: pkg_FromString_def uuid_MustParse_def uuid_Parse_String [OF assms])
qed

section \<open>The claims\<close>

text \<open>
  Claim C1: each convenience constructor returns an \<open>AppError\<close> whose \<open>Status\<close> is its
  HTTP code, whose \<open>Message\<close> is the rendered cause and whose \<open>Code.Category\<close> is the
  zero value. The code at the cause \<open>errors.New("boom")\<close>: \<open>Message\<close> and
  \<open>Code.Category\<close> are as claimed, but the HTTP code is stored in \<open>Code.Internal\<close> and
  \<open>Status\<close> stays 0, for all five constructors.
\<close>

theorem convenience_constructors_at_boom:
  "map (\<lambda>f. f (ErrorString ''boom''))
      [BadRequest, NotFound, Unauthorized, Forbidden, InternalServerError] =
   map (\<lambda>n. Return (AppError (ErrorString ''boom'') 0
          \<lparr>Category = ErrValidation, Internal = n\<rparr> ''boom'' None))
      [400, 404, 401, 403, 500]"
  by (simp add: BadRequest_def NotFound_def Unauthorized_def Forbidden_def
      InternalServerError_def withStatus_def StatusBadRequest_def StatusNotFound_def
      StatusUnauthorized_def StatusForbidden_def StatusInternalServerError_def
      ErrValidation_def)

text \<open>
  Claim C2: \<open>WithField\<close>, \<open>WithRow\<close> and \<open>WithInfo\<close> cannot fail on any \<open>AppError\<close>, in
  particular on one made by a public constructor. The code on the result of
  \<open>BadRequest(errors.New("boom"))\<close>: its \<open>Metadata\<close> is the nil map, and each of the
  three methods panics on the assignment, in every store.
\<close>

theorem builders_panic_after_BadRequest:
  "BadRequest (ErrorString ''boom'') =
     Return (AppError (ErrorString ''boom'') 0 \<lparr>Category = 0, Internal = 400\<rparr> ''boom'' None) \<and>
   WithField h (AppError (ErrorString ''boom'') 0 \<lparr>Category = 0, Internal = 400\<rparr> ''boom'' None)
     ''name'' = Panic NilMapWrite \<and>
   WithRow h (AppError (ErrorString ''boom'') 0 \<lparr>Category = 0, Internal = 400\<rparr> ''boom'' None)
     7 = Panic NilMapWrite \<and>
   WithInfo h (AppError (ErrorString ''boom'') 0 \<lparr>Category = 0, Internal = 400\<rparr> ''boom'' None)
     ''note'' = Panic NilMapWrite"
  by (simp add: BadRequest_def withStatus_def StatusBadRequest_def WithField_def WithRow_def
      WithInfo_def map_assign_def)

text \<open>
  Claim C3, as amended: \<open>IsCategory\<close> walks the unwrap chain of the error as
  \<open>errors.As\<close> does: depth first, through ordinary wrappers with one wrapped error or
  with several, and through \<open>AppError\<close> structs held by value. It stops at the first
  value that has the dynamic type \<open>*AppError\<close> or whose own method \<open>As\<close> stores a
  \<open>*AppError\<close>; it returns whether the category of the struct behind that pointer
  equals the queried one, and panics if the pointer is nil. It returns false when the
  walk meets no such value. In every case that returns, the store of metadata maps is
  the one the call was given: nothing is changed.
\<close>

theorem IsCategory_first_pointer:
  "IsCategory h err c =
     (case first_supplied (unwrap_chain err) of
        None \<Rightarrow> Return (h, False)
      | Some p \<Rightarrow>
          (case p of
             None \<Rightarrow> Panic NilDereference
           | Some a \<Rightarrow> Return (h, Category (Code a) = c))) \<and>
   IsCategory h (WrapError msg err) c = IsCategory h err c \<and>
   IsCategory h (AppErrorVal (AppError err st cd m md)) c = IsCategory h err c \<and>
   IsCategory h (MultiError msg (NilError # es)) c = IsCategory h (MultiError msg es) c \<and>
   IsCategory h (CustomError msg (Some (Some a)) es) c = Return (h, Category (Code a) = c)"
proof -
  have "errors_As err = first_supplied (unwrap_chain err)"
    by (rule errors_As_first_supplied)
  then have walk: "IsCategory h err c =
     (case first_supplied (unwrap_chain err) of
        None \<Rightarrow> Return (h, False)
      | Some p \<Rightarrow>
          (case p of
             None \<Rightarrow> Panic NilDereference
           | Some a \<Rightarrow> Return (h, Category (Code a) = c)))"
    by (simp add: IsCategory_def)
  have through: "IsCategory h (WrapError msg err) c = IsCategory h err c"
    "IsCategory h (AppErrorVal (AppError err st cd m md)) c = IsCategory h err c"
    "IsCategory h (MultiError msg (NilError # es)) c = IsCategory h (MultiError msg es) c"
    "IsCategory h (CustomError msg (Some (Some a)) es) c = Return (h, Category (Code a) = c)"
    by (simp_all add: IsCategory_def)
  from walk through show ?thesis by (intro conjI)
qed

text \<open>
  Claim C3 as stated fails: an \<open>AppError\<close> held by value is the first \<open>AppError\<close> of its
  chain and has the queried category, and \<open>IsCategory\<close> answers false.
\<close>

theorem IsCategory_value_counterexample:
  "IsCategory empty_heap (AppErrorVal (AppError (ErrorString ''boom'') 0
       \<lparr>Category = ErrNotFound, Internal = 0\<rparr> [] None)) ErrNotFound =
     Return (empty_heap, False) \<and>
   spec_isCategory (AppErrorVal (AppError (ErrorString ''boom'') 0
       \<lparr>Category = ErrNotFound, Internal = 0\<rparr> [] None)) ErrNotFound"
  by (simp add: IsCategory_def spec_isCategory_def)

text \<open>
  Claim C4: for an \<open>AppError\<close> \<open>e\<close> made by \<open>NewAppError\<close>, after \<open>e.WithField(v)\<close> the
  metadata reached through \<open>e\<close> itself maps \<open>"field"\<close> to \<open>v\<close>: the returned copy holds
  the same map reference as \<open>e\<close>. Likewise \<open>WithRow\<close> (key \<open>"row"\<close>, decimal text) and
  \<open>WithInfo\<close> (key \<open>"info"\<close>).
\<close>

theorem builders_write_shared_metadata:
  assumes "NewAppError h cause c n = (h1, e)"
  shows "(\<exists>h2 e2. WithField h1 e v = Return (h2, e2) \<and> Metadata e2 = Metadata e \<and>
            map_lookup h2 (Metadata e) ''field'' = Some v) \<and>
         (\<exists>h2 e2. WithRow h1 e row = Return (h2, e2) \<and> Metadata e2 = Metadata e \<and>
            map_lookup h2 (Metadata e) ''row'' = Some (Itoa row)) \<and>
         (\<exists>h2 e2. WithInfo h1 e info = Return (h2, e2) \<and> Metadata e2 = Metadata e \<and>
            map_lookup h2 (Metadata e) ''info'' = Some info)"
  using assms
  by (auto simp: NewAppError_def make_map_def WithField_def WithRow_def WithInfo_def
      map_assign_def map_lookup_def split: option.splits)

theorem builders_write_shared_metadata_witness:
  "(\<exists>h2 e2. WithField (fst (NewAppError empty_heap (ErrorString ''boom'') ErrNotFound None))
       (snd (NewAppError empty_heap (ErrorString ''boom'') ErrNotFound None)) ''name'' =
         Return (h2, e2) \<and>
       Metadata e2 = Some 0 \<and> map_lookup h2 (Some 0) ''field'' = Some ''name'') \<and>
   (\<exists>h2 e2. WithRow (fst (NewAppError empty_heap (ErrorString ''boom'') ErrNotFound None))
       (snd (NewAppError empty_heap (ErrorString ''boom'') ErrNotFound None)) 7 =
         Return (h2, e2) \<and>
       Metadata e2 = Some 0 \<and> map_lookup h2 (Some 0) ''row'' = Some ''7'')"
proof -
  have made: "NewAppError empty_heap (ErrorString ''boom'') ErrNotFound None =
      (fst (NewAppError empty_heap (ErrorString ''boom'') ErrNotFound None),
       snd (NewAppError empty_heap (ErrorString ''boom'') ErrNotFound None))"
    by simp
  have md: "Metadata (snd (NewAppError empty_heap (ErrorString ''boom'') ErrNotFound None)) =
      Some 0"
    by (simp add: NewAppError_def make_map_def empty_heap_def)
  have seven: "Itoa 7 = ''7''"
    by (simp add: Itoa_def)
  show ?thesis
    using builders_write_shared_metadata [OF made, of "''name''" 7 "''note''"]
    by (simp add: md seven)
qed

text \<open>
  Claim C5: \<open>NewAppError(cause, c, n)\<close> returns an \<open>AppError\<close> with \<open>Code.Category\<close>
  \<open>c\<close>, \<open>Code.Internal\<close> the pointed-to number when the pointer is not nil and 0
  otherwise, \<open>Err\<close> the cause, \<open>Status\<close> 0 and \<open>Message\<close> empty, and \<open>Metadata\<close> a
  reference, not nil, to a newly allocated map without entries.
\<close>

theorem NewAppError_fields:
  assumes "NewAppError h cause c n = (h1, e)"
  shows "Category (Code e) = c \<and>
         Internal (Code e) = (case n of Some k \<Rightarrow> k | None \<Rightarrow> 0) \<and>
         Err e = cause \<and> Status e = 0 \<and> Message e = [] \<and>
         Metadata e = Some (fresh h) \<and> fresh h1 = Suc (fresh h) \<and>
         cells h1 (fresh h) = Map.empty \<and>
         WithField h1 e v \<noteq> Panic NilMapWrite"
  using assms
  by (auto simp: NewAppError_def make_map_def WithField_def map_assign_def
      split: option.splits)

theorem NewAppError_fields_witness:
  "Category (Code (snd (NewAppError empty_heap (ErrorString ''boom'') ErrNotFound (Some 42)))) =
     ErrNotFound \<and>
   Internal (Code (snd (NewAppError empty_heap (ErrorString ''boom'') ErrNotFound (Some 42)))) =
     42 \<and>
   Err (snd (NewAppError empty_heap (ErrorString ''boom'') ErrNotFound (Some 42))) =
     ErrorString ''boom'' \<and>
   Status (snd (NewAppError empty_heap (ErrorString ''boom'') ErrNotFound (Some 42))) = 0 \<and>
   Message (snd (NewAppError empty_heap (ErrorString ''boom'') ErrNotFound (Some 42))) = [] \<and>
   Metadata (snd (NewAppError empty_heap (ErrorString ''boom'') ErrNotFound (Some 42))) =
     Some 0 \<and>
   cells (fst (NewAppError empty_heap (ErrorString ''boom'') ErrNotFound (Some 42))) 0 =
     Map.empty"
proof -
  have made: "NewAppError empty_heap (ErrorString ''boom'') ErrNotFound (Some 42) =
      (fst (NewAppError empty_heap (ErrorString ''boom'') ErrNotFound (Some 42)),
       snd (NewAppError empty_heap (ErrorString ''boom'') ErrNotFound (Some 42)))"
    by simp
  have fr: "fresh empty_heap = 0"
    by (simp add: empty_heap_def)
  show ?thesis
    using NewAppError_fields [OF made, of "''name''"]
    by (simp add: fr)
qed

text \<open>
  Claim C6: \<open>Category.String\<close> gives every one of the seven categories its own name and
  gives the fallback text only to numbers outside the enumeration. The code at
  \<open>ErrSecurity\<close>: the \<open>switch\<close> has no case for it, and the result is the fallback text,
  the same as for the number 7, which is no category.
\<close>

theorem Category_String_ErrSecurity:
  "Category_String ErrSecurity = ''UnkownCategoryError'' \<and>
   Category_String 7 = ''UnkownCategoryError''"
  by (simp add: Category_String_def ErrSecurity_def ErrValidation_def ErrInternal_def
      ErrNotFound_def ErrMethoNotAllowed_def ErrForbidden_def ErrUnauthorized_def)

text \<open>
  Claim C7: \<open>e.Error()\<close> is the rendered text of the wrapped cause, whatever \<open>Message\<close>
  (or any other field) holds, through the struct and through a pointer to it; and
  \<open>e.Unwrap()\<close> is the wrapped cause. The two sides agree as outcomes: with a nil
  cause both are the same panic.
\<close>

theorem Error_delegates_to_cause:
  "AppError_Error e = error_Error (Err e) \<and>
   AppError_Error (AppError (Err e) st cd msg md) = AppError_Error e \<and>
   error_Error (AppErrorPtr (Some e)) = error_Error (Err e) \<and>
   error_Error (AppErrorVal e) = error_Error (Err e) \<and>
   AppError_Error (AppError (ErrorString s) st cd msg md) = Return s \<and>
   Unwrap e = Err e"
  by (cases e) (simp add: Unwrap_def)

text \<open>
  Claim C8, as amended: \<open>FromString\<close> of package \<open>id\<close> returns its error exactly when
  the text is empty or is the text form of the nil UUID; \<open>FromString\<close> of package
  \<open>pkg/id\<close> returns it exactly when the text is empty, and parses the nil text. On every
  other text both hand it to \<open>uuid.MustParse\<close>: text that does not parse is a panic (as for
  \<open>"x"\<close>), text that parses gives the identifier and no error.
\<close>

theorem FromString_outcomes:
  "FromString s =
     (if s = [] \<or> s = ''00000000-0000-0000-0000-000000000000''
      then Return (None, ErrorString ''string s cannot be empty'')
      else case uuid_Parse s of
             None \<Rightarrow> Panic MustParseFailed
           | Some u \<Rightarrow> Return (Some u, NilError)) \<and>
   pkg_FromString s =
     (if s = []
      then Return (None, ErrorString ''string s cannot be empty'')
      else case uuid_Parse s of
             None \<Rightarrow> Panic MustParseFailed
           | Some u \<Rightarrow> Return (Some u, NilError)) \<and>
   FromString ''x'' = Panic MustParseFailed \<and>
   pkg_FromString ''x'' = Panic MustParseFailed"
  by (simp add: FromString_def pkg_FromString_def uuid_MustParse_def uuid_String_Nil
      uuid_Parse_def split: option.splits)

text \<open>
  Claim C8 as stated fails for package \<open>pkg/id\<close>: its \<open>FromString\<close> accepts the text of
  the nil UUID and returns the nil identifier without an error.
\<close>

theorem pkg_FromString_nil_text_counterexample:
  "pkg_FromString ''00000000-0000-0000-0000-000000000000'' = Return (Some uuid_Nil, NilError)"
proof -
  have "length uuid_Nil = 16" by (simp add: uuid_Nil_def)
  then have "pkg_FromString (uuid_String uuid_Nil) = Return (Some uuid_Nil, NilError)"
    by (rule pkg_FromString_String)
  then show ?thesis by (simp add: uuid_String_Nil)
qed

text \<open>
  Claim C9: in both packages, for the identifier that \<open>NewId\<close> returns, \<open>ToString\<close>
  followed by \<open>FromString\<close> succeeds and gives an identifier with the same 16 bytes; and
  two identifiers made by \<open>FromString\<close> from the same text have the same 16 bytes.
\<close>

theorem Id_round_trip:
  assumes "NewId rnd = Return p"
  shows "(\<exists>s. ToString p = Return s \<and> FromString s = Return (p, NilError)) \<and>
         (\<exists>s. pkg_ToString pkg_NewId = Return s \<and>
            pkg_FromString s = Return (pkg_NewId, NilError)) \<and>
         (\<forall>s a b ea eb. FromString s = Return (Some a, ea) \<and>
            FromString s = Return (Some b, eb) \<longrightarrow> a = b) \<and>
         (\<forall>s a b ea eb. pkg_FromString s = Return (Some a, ea) \<and>
            pkg_FromString s = Return (Some b, eb) \<longrightarrow> a = b)"
proof -
  from assms obtain u where u: "uuid_New rnd = Return u" and p: "p = Some u"
    by (auto simp: NewId_def split: outcome.splits)
  from u have "length u = 16" and "u \<noteq> uuid_Nil"
    using uuid_New_Return by auto
  then have "FromString (uuid_String u) = Return (Some u, NilError)"
    by (rule FromString_String)
  then have first: "\<exists>s. ToString p = Return s \<and> FromString s = Return (p, NilError)"
    by (simp add: p ToString_def)
  have "length (replicate 16 (0 :: byte)) = 16" by simp
  then have "pkg_FromString (uuid_String (replicate 16 0)) =
      Return (Some (replicate 16 0), NilError)"
    by (rule pkg_FromString_String)
  then have second: "\<exists>s. pkg_ToString pkg_NewId = Return s \<and>
      pkg_FromString s = Return (pkg_NewId, NilError)"
    by (simp add: pkg_NewId_def pkg_ToString_def)
  from first second show ?thesis by auto
qed

theorem Id_round_trip_witness:
  "NewId (replicate 16 0xff) =
     Return (Some [0xff, 0xff, 0xff, 0xff, 0xff, 0xff, 0x4f, 0xff,
                   0xbf, 0xff, 0xff, 0xff, 0xff, 0xff, 0xff, 0xff]) \<and>
   ToString (Some [0xff, 0xff, 0xff, 0xff, 0xff, 0xff, 0x4f, 0xff,
                   0xbf, 0xff, 0xff, 0xff, 0xff, 0xff, 0xff, 0xff]) =
     Return ''ffffffff-ffff-4fff-bfff-ffffffffffff'' \<and>
   FromString ''ffffffff-ffff-4fff-bfff-ffffffffffff'' =
     Return (Some [0xff, 0xff, 0xff, 0xff, 0xff, 0xff, 0x4f, 0xff,
                   0xbf, 0xff, 0xff, 0xff, 0xff, 0xff, 0xff, 0xff], NilError)"
proof -
  have new: "NewId (replicate 16 0xff) =
     Return (Some [0xff, 0xff, 0xff, 0xff, 0xff, 0xff, 0x4f, 0xff,
                   0xbf, 0xff, 0xff, 0xff, 0xff, 0xff, 0xff, 0xff])"
    by (simp add: NewId_def uuid_New_def eval_nat_numeral)
  have str: "ToString (Some [0xff, 0xff, 0xff, 0xff, 0xff, 0xff, 0x4f, 0xff,
                   0xbf, 0xff, 0xff, 0xff, 0xff, 0xff, 0xff, 0xff]) =
     Return ''ffffffff-ffff-4fff-bfff-ffffffffffff''"
    by (simp add: ToString_def uuid_String_def hex_Encode_def hextable_def drop_bit_eq_div)
  show ?thesis
    using Id_round_trip [OF new] new str by auto
qed

text \<open>
  Claim C10: the zero value of \<open>Category\<close> is \<open>ErrValidation\<close>, so the error that any
  of the five convenience constructors returns is classified as a validation error by
  \<open>IsCategory\<close>, whatever its HTTP code, in every store and without a change to it.
\<close>

theorem convenience_errors_are_validation:
  assumes "BadRequest err = Return e \<or> NotFound err = Return e \<or>
     Unauthorized err = Return e \<or> Forbidden err = Return e \<or>
     InternalServerError err = Return e"
  shows "IsCategory h (AppErrorPtr (Some e)) ErrValidation = Return (h, True)"
proof -
  from assms obtain n where "withStatus n err = Return e"
    by (auto simp: BadRequest_def NotFound_def Unauthorized_def Forbidden_def
        InternalServerError_def)
  then obtain msg where "e = AppError err 0 \<lparr>Category = 0, Internal = n\<rparr> msg None"
    using withStatus_Return by blast
  then show ?thesis
    by (simp add: IsCategory_def ErrValidation_def)
qed

theorem convenience_errors_are_validation_witness:
  "NotFound (ErrorString ''boom'') =
     Return (AppError (ErrorString ''boom'') 0 \<lparr>Category = 0, Internal = 404\<rparr> ''boom'' None) \<and>
   IsCategory empty_heap (AppErrorPtr (Some (AppError (ErrorString ''boom'') 0
       \<lparr>Category = 0, Internal = 404\<rparr> ''boom'' None))) ErrValidation =
     Return (empty_heap, True) \<and>
   IsCategory empty_heap (AppErrorPtr (Some (AppError (ErrorString ''boom'') 0
       \<lparr>Category = 0, Internal = 404\<rparr> ''boom'' None))) ErrNotFound =
     Return (empty_heap, False)"
proof -
  have made: "NotFound (ErrorString ''boom'') =
     Return (AppError (ErrorString ''boom'') 0 \<lparr>Category = 0, Internal = 404\<rparr> ''boom'' None)"
    by (simp add: NotFound_def withStatus_def StatusNotFound_def)
  then have "BadRequest (ErrorString ''boom'') =
       Return (AppError (ErrorString ''boom'') 0 \<lparr>Category = 0, Internal = 404\<rparr> ''boom'' None) \<or>
     NotFound (ErrorString ''boom'') =
       Return (AppError (ErrorString ''boom'') 0 \<lparr>Category = 0, Internal = 404\<rparr> ''boom'' None) \<or>
     Unauthorized (ErrorString ''boom'') =
       Return (AppError (ErrorString ''boom'') 0 \<lparr>Category = 0, Internal = 404\<rparr> ''boom'' None) \<or>
     Forbidden (ErrorString ''boom'') =
       Return (AppError (ErrorString ''boom'') 0 \<lparr>Category = 0, Internal = 404\<rparr> ''boom'' None) \<or>
     InternalServerError (ErrorString ''boom'') =
       Return (AppError (ErrorString ''boom'') 0 \<lparr>Category = 0, Internal = 404\<rparr> ''boom'' None)"
    by simp
  from convenience_errors_are_validation [OF this, of empty_heap] made show ?thesis
    by (simp add: IsCategory_def ErrNotFound_def)
qed

end
